theory Spec2Isabelle
  imports Complex_Main "HOL-Library.Multiset" "HOL-Library.Char_ord" "HOL-Library.List_Lexorder"
begin

section \<open>The BBC Hindi loader: \<^verbatim>\<open>utils_nlp/dataset/bbc_hindi.py\<close>\<close>

text \<open>
  The module is a linear pipeline: download, extract, parse two files, fit a label
  encoder, check and apply two sampling ratios, encode the labels, hand text and labels to
  a preprocessing class. Every step that touches the outside (network, disk, the tokenizer)
  is a call into another package; those calls are parameters of the model (the record
  \<open>collab\<close>), acting on an external world \<open>'w\<close> that the model never inspects.

  A Python function becomes a program: a function from the world to an outcome (\<open>Inl\<close> an
  exception, \<open>Inr\<close> the returned value), the world it leaves behind, and the list of events
  of the run in order: every call made to a collaborator with its arguments, every log
  record, every exception at the point where it is raised.
\<close>

subsection \<open>Exceptions, log records, events\<close>

text \<open>
  \<open>Formatted t r\<close> is the Python string \<^verbatim>\<open>t.format(r)\<close>; the decimal rendering of the
  float is not modelled. Sampling ratios are finite floats, held as the rational number
  they denote (the three comparisons of \<^verbatim>\<open>load_dataset\<close> are exact on floats).
\<close>

datatype message = Plain string | Formatted string rat

datatype exn =
    ValueError message  \<comment> \<open>the \<^verbatim>\<open>raise ValueError(...)\<close> of \<^verbatim>\<open>load_dataset\<close>\<close>
  | UnseenLabels        \<comment> \<open>the encoder's ValueError: "y contains previously unseen labels"\<close>
  | KeyError nat        \<comment> \<open>\<^verbatim>\<open>df[k]\<close> on a frame without column \<open>k\<close>\<close>
  | External string     \<comment> \<open>whatever a collaborator raised\<close>

datatype level = WARNING | ERROR

datatype 'c event =
    Download string string string             \<comment> \<open>\<^verbatim>\<open>maybe_download(url, filename, work_directory)\<close>\<close>
  | TarOpen string string                     \<comment> \<open>\<^verbatim>\<open>tarfile.open(name, mode)\<close>\<close>
  | ExtractAll string                         \<comment> \<open>\<^verbatim>\<open>tar.extractall(path=...)\<close>\<close>
  | TarClose                                  \<comment> \<open>\<^verbatim>\<open>tar.close()\<close>\<close>
  | ReadCsv string string string "nat option" \<comment> \<open>\<^verbatim>\<open>pd.read_csv(path, sep, encoding, header)\<close>\<close>
  | Fit "'c list"                             \<comment> \<open>\<^verbatim>\<open>label_encoder.fit(y)\<close>\<close>
  | Log level message                         \<comment> \<open>\<^verbatim>\<open>logging.warning(msg)\<close>, \<^verbatim>\<open>logging.error(msg)\<close>\<close>
  | Sample rat                                \<comment> \<open>\<^verbatim>\<open>df.sample(frac=...)\<close>\<close>
  | Transform "'c list"                       \<comment> \<open>\<^verbatim>\<open>label_encoder.transform(y)\<close>\<close>
  | NewProcessor string bool string           \<comment> \<open>\<^verbatim>\<open>Processor(model_name, to_lower, cache_dir)\<close>\<close>
  | Preprocess "'c list" "int list" int       \<comment> \<open>\<^verbatim>\<open>processor.preprocess(text, labels, max_len)\<close>\<close>
  | Raise exn                                 \<comment> \<open>an exception leaves the statement being run\<close>

subsection \<open>Programs\<close>

type_synonym ('a, 'w, 'c) prog = "'w \<Rightarrow> (exn + 'a) \<times> 'w \<times> 'c event list"

definition ret :: "'a \<Rightarrow> ('a, 'w, 'c) prog" where
  "ret x w = (Inr x, w, [])"

definition raise :: "exn \<Rightarrow> ('a, 'w, 'c) prog" where
  "raise e w = (Inl e, w, [Raise e])"

definition emit :: "'c event \<Rightarrow> (unit, 'w, 'c) prog" where
  "emit ev w = (Inr (), w, [ev])"

text \<open>Sequencing: the second statement runs only if the first returned. There is no
  operator that catches, as the module has no \<^verbatim>\<open>try\<close>.\<close>

definition and_then :: "('a, 'w, 'c) prog \<Rightarrow> ('a \<Rightarrow> ('b, 'w, 'c) prog) \<Rightarrow> ('b, 'w, 'c) prog" where
  "and_then m f w =
     (case m w of
        (Inl e, w', t) \<Rightarrow> (Inl e, w', t)
      | (Inr x, w', t) \<Rightarrow> (case f x w' of (r, w'', t') \<Rightarrow> (r, w'', t @ t')))"

text \<open>A pure library call that may raise.\<close>

definition lift :: "exn + 'a \<Rightarrow> ('a, 'w, 'c) prog" where
  "lift r = (case r of Inl e \<Rightarrow> raise e | Inr x \<Rightarrow> ret x)"

text \<open>A call into a collaborator: the call is recorded, the collaborator acts on the
  world, and what it raises is raised here.\<close>

definition extern :: "'c event \<Rightarrow> ('w \<Rightarrow> (string + 'a) \<times> 'w) \<Rightarrow> ('a, 'w, 'c) prog" where
  "extern ev f w =
     (case f w of
        (Inl x, w') \<Rightarrow> (Inl (External x), w', [ev, Raise (External x)])
      | (Inr a, w') \<Rightarrow> (Inr a, w', [ev]))"

subsection \<open>Data frames\<close>

text \<open>
  A frame read with \<^verbatim>\<open>header=None\<close> has the columns \<open>0, 1, ...\<close>; \<^verbatim>\<open>df[k]\<close> is column
  \<open>k\<close>, a KeyError when there is none. Cells are of one ordered type \<open>'c\<close>.
\<close>

record 'c frame =
  ncols :: nat
  rows :: "'c list list"

definition getitem :: "'c frame \<Rightarrow> nat \<Rightarrow> exn + 'c list" where
  "getitem df k = (if k < ncols df then Inr (map (\<lambda>r. r ! k) (rows df)) else Inl (KeyError k))"

subsection \<open>The collaborators\<close>

text \<open>
  \<^verbatim>\<open>maybe_download\<close> (utils_nlp.dataset.url_utils), \<^verbatim>\<open>tarfile\<close>, \<^verbatim>\<open>pd.read_csv\<close>, the
  generator behind \<^verbatim>\<open>DataFrame.sample\<close>, and \<^verbatim>\<open>Processor\<close>
  (utils_nlp.models.transformers.sequence_classification). \<open>'t\<close> is an open archive,
  \<open>'p\<close> a processor, \<open>'d\<close> a tensor dataset.
\<close>

record ('w, 'c, 't, 'p, 'd) collab =
  maybe_download :: "string \<Rightarrow> string \<Rightarrow> string \<Rightarrow> 'w \<Rightarrow> (string + string) \<times> 'w"
  tarfile_open :: "string \<Rightarrow> string \<Rightarrow> 'w \<Rightarrow> (string + 't) \<times> 'w"
  extractall :: "'t \<Rightarrow> string \<Rightarrow> 'w \<Rightarrow> (string + unit) \<times> 'w"
  tar_close :: "'t \<Rightarrow> 'w \<Rightarrow> (string + unit) \<times> 'w"
  read_csv :: "string \<Rightarrow> string \<Rightarrow> string \<Rightarrow> nat option \<Rightarrow> 'w \<Rightarrow> (string + 'c frame) \<times> 'w"
  rk_interval :: "nat \<Rightarrow> 'w \<Rightarrow> nat \<times> 'w"
  Processor :: "string \<Rightarrow> bool \<Rightarrow> string \<Rightarrow> 'w \<Rightarrow> (string + 'p) \<times> 'w"
  preprocess :: "'p \<Rightarrow> 'c list \<Rightarrow> int list \<Rightarrow> int \<Rightarrow> 'w \<Rightarrow> (string + 'd) \<times> 'w"

subsection \<open>The label encoder\<close>

text \<open>
  Modelled from the spec: \<^verbatim>\<open>sklearn.preprocessing.LabelEncoder\<close> is not under src/. The
  spec calls it a bidirectional mapping between category strings and integer IDs, and
  names the set of labels seen during fit. The model: \<open>fit\<close> keeps the distinct labels in
  ascending order, \<open>transform\<close> maps a label to its position and raises on a label that was
  not seen, \<open>inverse_transform\<close> maps a position back and raises on an ID that is none.
\<close>

record 'c label_encoder =  \<comment> \<open>the attribute \<^verbatim>\<open>classes_\<close> of the fitted encoder\<close>
  classes :: "'c list"

definition fit :: "'c::linorder list \<Rightarrow> 'c label_encoder" where
  "fit y = \<lparr>classes = sort (remdups y)\<rparr>"

fun index_of :: "'c list \<Rightarrow> 'c \<Rightarrow> nat" where
  "index_of [] v = 0"
| "index_of (x # xs) v = (if x = v then 0 else Suc (index_of xs v))"

definition transform :: "'c label_encoder \<Rightarrow> 'c list \<Rightarrow> exn + int list" where
  "transform le y =
     (if \<exists>v \<in> set y. v \<notin> set (classes le) then Inl UnseenLabels
      else Inr (map (\<lambda>v. int (index_of (classes le) v)) y))"

definition inverse_transform :: "'c label_encoder \<Rightarrow> int list \<Rightarrow> exn + 'c list" where
  "inverse_transform le y =
     (if \<exists>i \<in> set y. i < 0 \<or> int (length (classes le)) \<le> i then Inl UnseenLabels
      else Inr (map (\<lambda>i. classes le ! nat i) y))"

subsection \<open>Sampling\<close>

text \<open>
  Modelled from the spec: \<^verbatim>\<open>DataFrame.sample\<close> is pandas code, not under src/. The spec
  gives the size of the sampled frame as about \<open>r \<times> n\<close>. The model: \<open>round(frac * n)\<close>
  rows (Python's \<^verbatim>\<open>round\<close>, halves to the even neighbour; the product taken exactly),
  the first so many of a random permutation of the rows; the permutation is a
  Fisher-Yates shuffle that asks the world's generator for a number in \<open>[0, i]\<close> at
  step \<open>i\<close>. \<^verbatim>\<open>reset_index(drop=True)\<close> renumbers the row labels, which a list of rows
  does not have.
\<close>

definition py_round :: "rat \<Rightarrow> int" where
  "py_round x =
     (let f = \<lfloor>x\<rfloor>; d = x - of_int f
      in if d < 1 / 2 then f else if 1 / 2 < d then f + 1 else if even f then f else f + 1)"

fun shuffle :: "(nat \<Rightarrow> 'w \<Rightarrow> nat \<times> 'w) \<Rightarrow> nat \<Rightarrow> 'a list \<Rightarrow> 'w \<Rightarrow> 'a list \<times> 'w" where
  "shuffle gen 0 xs w = (xs, w)"
| "shuffle gen (Suc i) xs w =
     (case gen (Suc i) w of
        (r, w') \<Rightarrow>
          (let j = r mod (Suc (Suc i))
           in shuffle gen i (xs[Suc i := xs ! j, j := xs ! Suc i]) w'))"

definition permutation :: "(nat \<Rightarrow> 'w \<Rightarrow> nat \<times> 'w) \<Rightarrow> nat \<Rightarrow> 'w \<Rightarrow> nat list \<times> 'w" where
  "permutation gen n w = shuffle gen (n - 1) [0..<n] w"

definition sample :: "('w, 'c, 't, 'p, 'd) collab \<Rightarrow> rat \<Rightarrow> 'c frame \<Rightarrow> ('c frame, 'w, 'c) prog" where
  "sample c fr df w =
     (let n = nat (py_round (fr * of_nat (length (rows df))))
      in case permutation (rk_interval c) (length (rows df)) w of
           (locs, w') \<Rightarrow>
             (Inr (df\<lparr>rows := map (\<lambda>i. rows df ! i) (take n locs)\<rparr>), w', [Sample fr]))"

subsection \<open>Paths and the archive name\<close>

text \<open>\<^verbatim>\<open>str.split(sep)\<close> for a one-character separator, and \<^verbatim>\<open>os.path.join\<close> of two
  components on a POSIX system.\<close>

fun split :: "char \<Rightarrow> string \<Rightarrow> string list" where
  "split sep [] = [[]]"
| "split sep (ch # s) =
     (if ch = sep then [] # split sep s
      else (case split sep s of p # ps \<Rightarrow> (ch # p) # ps | [] \<Rightarrow> [[ch]]))"

definition path_join :: "string \<Rightarrow> string \<Rightarrow> string" where
  "path_join a b =
     (if b \<noteq> [] \<and> hd b = CHR ''/'' then b
      else if a = [] \<or> last a = CHR ''/'' then a @ b
      else a @ ''/'' @ b)"

definition URL :: string where
  "URL = ''https://github.com/NirantK/hindi2vec/releases/'' @
         ''download/bbc-hindi-v0.1/bbc-hindiv01.tar.gz''"

subsection \<open>\<^verbatim>\<open>load_pandas_df\<close>\<close>

definition load_pandas_df ::
  "('w, 'c, 't, 'p, 'd) collab \<Rightarrow> string \<Rightarrow> ('c frame \<times> 'c frame, 'w, 'c) prog" where
  "load_pandas_df c local_cache_path =
     (let zipped_file = last (split CHR ''/'' URL) in
      and_then (extern (Download URL zipped_file local_cache_path)
                  (maybe_download c URL zipped_file local_cache_path)) (\<lambda>_.
      let zipped_file_path = path_join local_cache_path zipped_file in
      and_then (extern (TarOpen zipped_file_path ''r:gz'')
                  (tarfile_open c zipped_file_path ''r:gz'')) (\<lambda>tar.
      and_then (extern (ExtractAll local_cache_path)
                  (extractall c tar local_cache_path)) (\<lambda>_.
      and_then (extern TarClose (tar_close c tar)) (\<lambda>_.
      let train_csv_file_path = path_join local_cache_path ''hindi-train.csv'';
          test_csv_file_path = path_join local_cache_path ''hindi-test.csv'' in
      and_then (extern (ReadCsv train_csv_file_path [CHR 0x09] ''utf-8'' None)
                  (read_csv c train_csv_file_path [CHR 0x09] ''utf-8'' None)) (\<lambda>train_df.
      and_then (extern (ReadCsv test_csv_file_path [CHR 0x09] ''utf-8'' None)
                  (read_csv c test_csv_file_path [CHR 0x09] ''utf-8'' None)) (\<lambda>test_df.
      ret (train_df, test_df))))))))"

subsection \<open>\<^verbatim>\<open>load_dataset\<close>\<close>

record args =
  local_path :: string
  test_fraction :: rat
  random_seed :: "rat option"
  train_sample_ratio :: rat
  test_sample_ratio :: rat
  model_name :: string
  to_lower :: bool
  cache_dir :: string
  max_len :: int

definition load_dataset ::
  "('w, 'c::linorder, 't, 'p, 'd) collab \<Rightarrow> args \<Rightarrow> ('d \<times> 'd \<times> 'c label_encoder, 'w, 'c) prog" where
  "load_dataset c a =
     and_then (load_pandas_df c (local_path a)) (\<lambda>(train_df, test_df).
     and_then (lift (getitem train_df 0)) (\<lambda>y.
     and_then (emit (Fit y)) (\<lambda>_.
     let label_encoder = fit y in
     and_then
       (if train_sample_ratio a > 1 then
          and_then (emit (Log WARNING (Plain ''Setting the training sample ratio to 1.0''))) (\<lambda>_.
          ret 1)
        else if train_sample_ratio a < 0 then
          and_then (emit (Log ERROR
             (Formatted ''Invalid training sample ration: {}'' (train_sample_ratio a)))) (\<lambda>_.
          raise (ValueError
             (Formatted ''Invalid training sample ration: {}'' (train_sample_ratio a))))
        else ret (train_sample_ratio a)) (\<lambda>train_sample_ratio.
     and_then
       (if test_sample_ratio a > 1 then
          and_then (emit (Log WARNING (Plain ''Setting the testing sample ratio to 1.0''))) (\<lambda>_.
          ret 1)
        else if test_sample_ratio a < 0 then
          and_then (emit (Log ERROR
             (Formatted ''Invalid testing sample ration: {}'' (test_sample_ratio a)))) (\<lambda>_.
          raise (ValueError
             (Formatted ''Invalid testing sample ration: {}'' (test_sample_ratio a))))
        else ret (test_sample_ratio a)) (\<lambda>test_sample_ratio.
     and_then (if train_sample_ratio < 1 then sample c train_sample_ratio train_df
               else ret train_df) (\<lambda>train_df.
     and_then (if test_sample_ratio < 1 then sample c test_sample_ratio test_df
               else ret test_df) (\<lambda>test_df.
     and_then (lift (getitem train_df 0)) (\<lambda>y_train.
     and_then (emit (Transform y_train)) (\<lambda>_.
     and_then (lift (transform label_encoder y_train)) (\<lambda>train_labels.
     and_then (lift (getitem test_df 0)) (\<lambda>y_test.
     and_then (emit (Transform y_test)) (\<lambda>_.
     and_then (lift (transform label_encoder y_test)) (\<lambda>test_labels.
     and_then (extern (NewProcessor (model_name a) (to_lower a) (cache_dir a))
                 (Processor c (model_name a) (to_lower a) (cache_dir a))) (\<lambda>processor.
     and_then (lift (getitem train_df 1)) (\<lambda>text_train.
     and_then (extern (Preprocess text_train train_labels (max_len a))
                 (preprocess c processor text_train train_labels (max_len a))) (\<lambda>train_dataset.
     and_then (lift (getitem test_df 1)) (\<lambda>text_test.
     and_then (extern (Preprocess text_test test_labels (max_len a))
                 (preprocess c processor text_test test_labels (max_len a))) (\<lambda>test_dataset.
     ret (train_dataset, test_dataset, label_encoder)))))))))))))))))))"

subsection \<open>\<^verbatim>\<open>get_label_values\<close>\<close>

definition get_label_values :: "'c label_encoder \<Rightarrow> int list \<Rightarrow> exn + 'c list" where
  "get_label_values label_encoder label_ids = inverse_transform label_encoder label_ids"


subsection \<open>Reading a run\<close>

text \<open>\<open>after t0 run\<close> is \<open>run\<close> with the events \<open>t0\<close> before its own; \<open>transformed t\<close> are the
  label columns given to \<^verbatim>\<open>label_encoder.transform\<close> during a run with events \<open>t\<close>, in
  call order.\<close>

definition after :: "'c event list \<Rightarrow> (exn + 'a) \<times> 'w \<times> 'c event list \<Rightarrow> (exn + 'a) \<times> 'w \<times> 'c event list" where
  "after t0 run = (case run of (r, w, t) \<Rightarrow> (r, w, t0 @ t))"

fun transformed :: "'c event list \<Rightarrow> 'c list list" where
  "transformed [] = []"
| "transformed (Transform y # t) = y # transformed t"
| "transformed (_ # t) = transformed t"


definition raises_only :: "exn set \<Rightarrow> ('a, 'w, 'c) prog \<Rightarrow> bool" where
  "raises_only E m \<longleftrightarrow> (\<forall>w w' t e. m w = (Inl e, w', t) \<longrightarrow> e \<in> E)"

text \<open>Two names for the later part of \<^verbatim>\<open>load_dataset\<close>, lines 161 to 178 and lines 156 to
  178, as they stand in its definition above.\<close>

abbreviation encode ::
  "('w, 'c::linorder, 't, 'p, 'd) collab \<Rightarrow> args \<Rightarrow> 'c label_encoder \<Rightarrow> 'c frame \<Rightarrow> 'c frame \<Rightarrow>
     ('d \<times> 'd \<times> 'c label_encoder, 'w, 'c) prog" where
  "encode c a label_encoder train_df test_df \<equiv>
     and_then (lift (getitem train_df 0)) (\<lambda>y_train.
     and_then (emit (Transform y_train)) (\<lambda>_.
     and_then (lift (transform label_encoder y_train)) (\<lambda>train_labels.
     and_then (lift (getitem test_df 0)) (\<lambda>y_test.
     and_then (emit (Transform y_test)) (\<lambda>_.
     and_then (lift (transform label_encoder y_test)) (\<lambda>test_labels.
     and_then (extern (NewProcessor (model_name a) (to_lower a) (cache_dir a))
                 (Processor c (model_name a) (to_lower a) (cache_dir a))) (\<lambda>processor.
     and_then (lift (getitem train_df 1)) (\<lambda>text_train.
     and_then (extern (Preprocess text_train train_labels (max_len a))
                 (preprocess c processor text_train train_labels (max_len a))) (\<lambda>train_dataset.
     and_then (lift (getitem test_df 1)) (\<lambda>text_test.
     and_then (extern (Preprocess text_test test_labels (max_len a))
                 (preprocess c processor text_test test_labels (max_len a))) (\<lambda>test_dataset.
     ret (train_dataset, test_dataset, label_encoder))))))))))))"

abbreviation subsample ::
  "('w, 'c::linorder, 't, 'p, 'd) collab \<Rightarrow> args \<Rightarrow> 'c label_encoder \<Rightarrow> rat \<Rightarrow> rat \<Rightarrow>
     'c frame \<Rightarrow> 'c frame \<Rightarrow> ('d \<times> 'd \<times> 'c label_encoder, 'w, 'c) prog" where
  "subsample c a label_encoder train_ratio test_ratio train_df test_df \<equiv>
     and_then (if train_ratio < 1 then sample c train_ratio train_df
               else ret train_df) (\<lambda>train_df.
     and_then (if test_ratio < 1 then sample c test_ratio test_df
               else ret test_df) (\<lambda>test_df.
     encode c a label_encoder train_df test_df))"


subsection \<open>A small environment to run the loader in\<close>

text \<open>
  A world with a set of files and a counter standing for the generator; an archive whose
  extraction creates the two splits; a reader that serves two fixed frames; a processor
  that pairs each text with its label ID.
\<close>

record demo_world =
  files :: "string list"
  drawn :: nat

definition demo_train :: "string frame" where
  "demo_train = \<lparr>ncols = 2, rows =
     [[''india'', ''a''], [''sport'', ''b''], [''india'', ''c''], [''news'', ''d'']]\<rparr>"

definition demo_test :: "string frame" where
  "demo_test = \<lparr>ncols = 2, rows = [[''sport'', ''e''], [''news'', ''f'']]\<rparr>"

definition demo :: "(demo_world, string, string, unit, (string \<times> int) list) collab" where
  "demo = \<lparr>
     maybe_download = (\<lambda>url f d w. (Inr (path_join d f), w\<lparr>files := path_join d f # files w\<rparr>)),
     tarfile_open = (\<lambda>p m w. (if p \<in> set (files w) then Inr p else Inl ''FileNotFoundError'', w)),
     extractall = (\<lambda>t d w. (Inr (), w\<lparr>files :=
        path_join d ''hindi-test.csv'' # path_join d ''hindi-train.csv'' # files w\<rparr>)),
     tar_close = (\<lambda>t w. (Inr (), w)),
     read_csv = (\<lambda>p sep enc h w.
        (if p \<notin> set (files w) then Inl ''FileNotFoundError''
         else if p = ''d/hindi-train.csv'' then Inr demo_train else Inr demo_test, w)),
     rk_interval = (\<lambda>i w. (drawn w, w\<lparr>drawn := Suc (drawn w)\<rparr>)),
     Processor = (\<lambda>m l d w. (Inr (), w)),
     preprocess = (\<lambda>p text labels ml w. (Inr (zip text labels), w))\<rparr>"

definition demo_args :: args where
  "demo_args = \<lparr>local_path = ''d'', test_fraction = 1, random_seed = None,
     train_sample_ratio = 1, test_sample_ratio = 1, model_name = ''bert-base-uncased'',
     to_lower = True, cache_dir = ''cache'', max_len = 512\<rparr>"

definition demo_start :: demo_world where
  "demo_start = \<lparr>files = [], drawn = 0\<rparr>"


definition demo_loaded :: demo_world where
  "demo_loaded = \<lparr>files = [''d/hindi-test.csv'', ''d/hindi-train.csv'', ''d/bbc-hindiv01.tar.gz''],
     drawn = 0\<rparr>"

text \<open>A test split with a label that the training split does not have, the six events of a
  run of \<open>load_pandas_df\<close> in the cache directory \<open>d\<close>, and what \<open>load_dataset\<close> returns and
  does last on the two frames when nothing is sampled.\<close>

definition demo_test_unseen :: "string frame" where
  "demo_test_unseen = \<lparr>ncols = 2, rows = [[''business'', ''e''], [''news'', ''f'']]\<rparr>"

definition demo_unseen :: "(demo_world, string, string, unit, (string \<times> int) list) collab" where
  "demo_unseen = demo\<lparr>read_csv := (\<lambda>p sep enc h w.
        (if p \<notin> set (files w) then Inl ''FileNotFoundError''
         else if p = ''d/hindi-train.csv'' then Inr demo_train else Inr demo_test_unseen, w))\<rparr>"

definition demo_events :: "string event list" where
  "demo_events =
     [Download URL ''bbc-hindiv01.tar.gz'' ''d'',
      TarOpen ''d/bbc-hindiv01.tar.gz'' ''r:gz'',
      ExtractAll ''d'',
      TarClose,
      ReadCsv ''d/hindi-train.csv'' [CHR 0x09] ''utf-8'' None,
      ReadCsv ''d/hindi-test.csv'' [CHR 0x09] ''utf-8'' None]"



section \<open>Properties\<close>

subsection \<open>The label encoder\<close>

lemma index_of_less: "v \<in> set xs \<Longrightarrow> index_of xs v < length xs"
  by (induction xs) auto

lemma nth_index_of: "v \<in> set xs \<Longrightarrow> xs ! index_of xs v = v"
  by (induction xs) auto

lemma index_of_nth: "distinct xs \<Longrightarrow> i < length xs \<Longrightarrow> index_of xs (xs ! i) = i"
proof (induction xs arbitrary: i)
  case Nil
  then show ?case by simp
next
  case (Cons x xs)
  then show ?case by (cases i) auto
qed

lemma set_classes_fit: "set (classes (fit y)) = set y"
  by (simp add: fit_def)

lemma distinct_classes_fit: "distinct (classes (fit y))"
  by (simp add: fit_def)

lemma sorted_classes_fit: "sorted (classes (fit y))"
  by (simp add: fit_def)

lemma transform_seen:
  "set y \<subseteq> set (classes le) \<Longrightarrow>
     transform le y = Inr (map (\<lambda>v. int (index_of (classes le) v)) y)"
  by (auto simp: transform_def)

lemma transform_Inr_iff: "(\<exists>ids. transform le y = Inr ids) \<longleftrightarrow> set y \<subseteq> set (classes le)"
  by (auto simp: transform_def)

lemma inverse_of_transform:
  assumes "set y \<subseteq> set (classes le)"
  shows "inverse_transform le (map (\<lambda>v. int (index_of (classes le) v)) y) = Inr y"
proof -
  have "\<forall>v \<in> set y. index_of (classes le) v < length (classes le)"
    using assms by (auto intro: index_of_less)
  moreover have "map (\<lambda>v. classes le ! index_of (classes le) v) y = y"
    using assms by (auto simp: map_idI nth_index_of subsetD)
  ultimately show ?thesis
    by (auto simp: inverse_transform_def o_def)
qed

lemma transform_of_inverse:
  assumes "distinct (classes le)" and "\<forall>i \<in> set ids. 0 \<le> i \<and> i < int (length (classes le))"
  shows "inverse_transform le ids = Inr (map (\<lambda>i. classes le ! nat i) ids)"
    and "transform le (map (\<lambda>i. classes le ! nat i) ids) = Inr ids"
proof -
  show "inverse_transform le ids = Inr (map (\<lambda>i. classes le ! nat i) ids)"
    using assms(2) by (auto simp: inverse_transform_def)
  have seen: "set (map (\<lambda>i. classes le ! nat i) ids) \<subseteq> set (classes le)"
    using assms(2) by (auto simp: nat_less_iff)
  have "map (\<lambda>v. int (index_of (classes le) v)) (map (\<lambda>i. classes le ! nat i) ids) = ids"
    using assms by (auto simp: o_def index_of_nth nat_less_iff intro!: map_idI)
  with seen show "transform le (map (\<lambda>i. classes le ! nat i) ids) = Inr ids"
    by (simp add: transform_seen del: set_map)
qed

text \<open>
  C3. For a fitted encoder and label values drawn from the labels it was fitted on,
  \<open>transform\<close> returns IDs and \<open>get_label_values\<close> of those IDs returns the original values.
  The other direction holds too: for IDs that are positions of fitted classes,
  \<open>get_label_values\<close> returns values whose \<open>transform\<close> is the IDs again.
\<close>

theorem get_label_values_inverts_transform:
  "(set y \<subseteq> set fitted \<longrightarrow>
      (\<exists>ids. transform (fit fitted) y = Inr ids \<and> get_label_values (fit fitted) ids = Inr y)) \<and>
   ((\<forall>i \<in> set ids. 0 \<le> i \<and> i < int (length (classes (fit fitted)))) \<longrightarrow>
      (\<exists>vals. get_label_values (fit fitted) ids = Inr vals \<and> transform (fit fitted) vals = Inr ids))"
proof (intro conjI impI)
  assume "set y \<subseteq> set fitted"
  then have seen: "set y \<subseteq> set (classes (fit fitted))"
    by (simp add: set_classes_fit)
  show "\<exists>ids. transform (fit fitted) y = Inr ids \<and> get_label_values (fit fitted) ids = Inr y"
    using transform_seen [OF seen] inverse_of_transform [OF seen]
    by (simp add: get_label_values_def)
next
  assume "\<forall>i \<in> set ids. 0 \<le> i \<and> i < int (length (classes (fit fitted)))"
  then show "\<exists>vals. get_label_values (fit fitted) ids = Inr vals \<and> transform (fit fitted) vals = Inr ids"
    using transform_of_inverse [OF distinct_classes_fit, of ids fitted]
    by (simp add: get_label_values_def)
qed

theorem get_label_values_inverts_transform_witness:
  "set [''sport'', ''india'', ''sport''] \<subseteq> set [''india'', ''sport'', ''india'', ''news''] \<and>
   transform (fit [''india'', ''sport'', ''india'', ''news'']) [''sport'', ''india'', ''sport''] = Inr [2, 0, 2] \<and>
   get_label_values (fit [''india'', ''sport'', ''india'', ''news'']) [2, 0, 2] = Inr [''sport'', ''india'', ''sport''] \<and>
   length (classes (fit [''india'', ''sport'', ''india'', ''news''])) = 3 \<and>
   get_label_values (fit [''india'', ''sport'', ''india'', ''news'']) [1, 2] = Inr [''news'', ''sport'']"
  using get_label_values_inverts_transform
    [of "[''sport'', ''india'', ''sport'']" "[''india'', ''sport'', ''india'', ''news'']" "[1, 2]"]
  by (simp add: fit_def transform_def get_label_values_def inverse_transform_def)

subsection \<open>The arguments that are not used\<close>

text \<open>
  C8. Two calls of \<open>load_dataset\<close> that differ only in \<open>random_seed\<close> are the same
  program: the same outcome, the same final world and the same events from every starting
  world. Sampling draws from the world's generator and is never given the seed.
\<close>

theorem load_dataset_ignores_random_seed:
  "load_dataset c (a\<lparr>random_seed := seed\<rparr>) = load_dataset c a"
  by (simp add: load_dataset_def)

subsection \<open>Running programs forward\<close>

lemma after_simps [simp]:
  "after t0 (r, w, t) = (r, w, t0 @ t)"
  "after [] run = run"
  "after t0 (after t1 run) = after (t0 @ t1) run"
  "fst (after t0 run) = fst run"
  "fst (snd (after t0 run)) = fst (snd run)"
  "snd (snd (after t0 run)) = t0 @ snd (snd run)"
  by (simp_all add: after_def split: prod.splits)

lemma and_then_after: "m w = (Inr x, w1, t1) \<Longrightarrow> and_then m f w = after t1 (f x w1)"
  by (simp add: and_then_def after_def)

lemma and_then_fails: "m w = (Inl e, w1, t1) \<Longrightarrow> and_then m f w = (Inl e, w1, t1)"
  by (simp add: and_then_def)

lemma and_then_ret: "and_then (ret x) f w = f x w"
  by (simp add: and_then_def ret_def split: prod.splits)

lemma and_then_emit: "and_then (emit ev) f w = after [ev] (f () w)"
  by (simp add: and_then_def emit_def after_def)

lemma and_then_raise: "and_then (raise e) f w = (Inl e, w, [Raise e])"
  by (simp add: and_then_def raise_def)

lemma lift_simps: "lift (Inr x) = ret x" "lift (Inl e) = raise e"
  by (simp_all add: lift_def)

lemma and_then_assoc: "and_then (and_then m f) g w = and_then m (\<lambda>x. and_then (f x) g) w"
  by (simp add: and_then_def split: prod.splits sum.splits)

lemmas forward = and_then_ret and_then_emit and_then_raise lift_simps and_then_assoc

lemma zipped_file: "last (split CHR ''/'' URL) = ''bbc-hindiv01.tar.gz''"
  by (simp add: URL_def)

lemma load_dataset_load_fails:
  assumes "load_pandas_df c (local_path a) w = (Inl e, w1, t1)"
  shows "load_dataset c a w = (Inl e, w1, t1)"
  by (simp add: load_dataset_def and_then_fails [of "load_pandas_df c (local_path a)" w, OF assms])

lemma load_dataset_no_label_column:
  assumes "load_pandas_df c (local_path a) w = (Inr (train_df, test_df), w1, t1)"
    and "ncols train_df = 0"
  shows "load_dataset c a w = (Inl (KeyError 0), w1, t1 @ [Raise (KeyError 0)])"
  using assms(2) by (simp add: load_dataset_def and_then_after [of "load_pandas_df c (local_path a)" w, OF assms(1)] getitem_def forward)

lemma load_dataset_train_negative:
  assumes "load_pandas_df c (local_path a) w = (Inr (train_df, test_df), w1, t1)"
    and "getitem train_df 0 = Inr y"
    and "train_sample_ratio a < 0"
  shows "load_dataset c a w =
    (Inl (ValueError (Formatted ''Invalid training sample ration: {}'' (train_sample_ratio a))), w1,
     t1 @ [Fit y,
           Log ERROR (Formatted ''Invalid training sample ration: {}'' (train_sample_ratio a)),
           Raise (ValueError (Formatted ''Invalid training sample ration: {}'' (train_sample_ratio a)))])"
  using assms(2,3) by (simp add: load_dataset_def and_then_after [of "load_pandas_df c (local_path a)" w, OF assms(1)] forward Let_def)

lemma load_dataset_test_negative:
  assumes "load_pandas_df c (local_path a) w = (Inr (train_df, test_df), w1, t1)"
    and "getitem train_df 0 = Inr y"
    and "0 \<le> train_sample_ratio a"
    and "test_sample_ratio a < 0"
  shows "load_dataset c a w =
    (Inl (ValueError (Formatted ''Invalid testing sample ration: {}'' (test_sample_ratio a))), w1,
     t1 @ Fit y #
       (if 1 < train_sample_ratio a
        then [Log WARNING (Plain ''Setting the training sample ratio to 1.0'')] else []) @
       [Log ERROR (Formatted ''Invalid testing sample ration: {}'' (test_sample_ratio a)),
        Raise (ValueError (Formatted ''Invalid testing sample ration: {}'' (test_sample_ratio a)))])"
  using assms(2,3,4) by (simp add: load_dataset_def and_then_after [of "load_pandas_df c (local_path a)" w, OF assms(1)] forward Let_def)

lemma load_dataset_checked:
  assumes "load_pandas_df c (local_path a) w = (Inr (train_df, test_df), w1, t1)"
    and "getitem train_df 0 = Inr y"
    and "0 \<le> train_sample_ratio a"
    and "0 \<le> test_sample_ratio a"
  shows "load_dataset c a w =
    after (t1 @ Fit y #
       (if 1 < train_sample_ratio a
        then [Log WARNING (Plain ''Setting the training sample ratio to 1.0'')] else []) @
       (if 1 < test_sample_ratio a
        then [Log WARNING (Plain ''Setting the testing sample ratio to 1.0'')] else []))
      (subsample c a (fit y) (min 1 (train_sample_ratio a)) (min 1 (test_sample_ratio a))
         train_df test_df w1)"
  using assms(2,3,4) by (simp add: load_dataset_def and_then_after [of "load_pandas_df c (local_path a)" w, OF assms(1)] forward min_def Let_def)

subsection \<open>Rounding and sampling\<close>


lemma py_round_le: "x \<le> of_int k \<Longrightarrow> py_round x \<le> k"
proof -
  assume le: "x \<le> of_int k"
  have fl: "of_int \<lfloor>x\<rfloor> \<le> x" by linarith
  have "\<lfloor>x\<rfloor> \<le> k" using le by (simp add: floor_le_iff)
  moreover have "\<lfloor>x\<rfloor> < k" if "0 < x - of_int \<lfloor>x\<rfloor>"
  proof -
    from that le have "(of_int \<lfloor>x\<rfloor> :: rat) < of_int k" by linarith
    then show ?thesis by simp
  qed
  ultimately show ?thesis
    by (auto simp: py_round_def Let_def)
qed

lemma py_round_ge: "of_int k \<le> x \<Longrightarrow> k \<le> py_round x"
proof -
  assume "of_int k \<le> x"
  then have "k \<le> \<lfloor>x\<rfloor>" by (simp add: le_floor_iff)
  then show ?thesis
    by (auto simp: py_round_def Let_def)
qed

lemma shuffle_mset:
  "i < length xs \<or> i = 0 \<Longrightarrow> mset (fst (shuffle gen i xs w)) = mset xs"
proof (induction i arbitrary: xs w)
  case 0
  then show ?case by simp
next
  case (Suc i)
  obtain r w' where draw: "gen (Suc i) w = (r, w')"
    by (cases "gen (Suc i) w")
  let ?j = "r mod Suc (Suc i)"
  let ?ys = "xs[Suc i := xs ! ?j, ?j := xs ! Suc i]"
  from Suc.prems have i: "Suc i < length xs" by simp
  have "?j < Suc (Suc i)" by simp
  with i have j: "?j < length xs" by linarith
  have "mset (fst (shuffle gen i ?ys w')) = mset ?ys"
    using i by (intro Suc.IH) simp
  also have "mset ?ys = mset xs"
    using j i by (rule mset_swap)
  finally show ?case
    by (simp add: draw Let_def)
qed

lemma permutation_mset: "mset (fst (permutation gen n w)) = mset [0..<n]"
  unfolding permutation_def by (rule shuffle_mset) auto

lemma permutation_set: "set (fst (permutation gen n w)) = {0..<n}"
  using permutation_mset [of gen n w] by (metis mset_eq_setD set_upt)

lemma permutation_length: "length (fst (permutation gen n w)) = n"
  using permutation_mset [of gen n w] by (metis length_upt mset_eq_length minus_nat.diff_0)

lemma permutation_distinct: "distinct (fst (permutation gen n w))"
  using permutation_mset [of gen n w] by (metis distinct_upt mset_eq_imp_distinct_iff)

lemma sample_returns:
  obtains df' w' where
    "sample c fr df w = (Inr df', w', [Sample fr])"
    "ncols df' = ncols df"
    "set (rows df') \<subseteq> set (rows df)"
    "0 \<le> fr \<Longrightarrow> fr \<le> 1 \<Longrightarrow> int (length (rows df')) = py_round (fr * of_nat (length (rows df)))"
proof -
  let ?N = "length (rows df)"
  let ?n = "nat (py_round (fr * of_nat ?N))"
  obtain locs w' where perm: "permutation (rk_interval c) ?N w = (locs, w')"
    by (cases "permutation (rk_interval c) ?N w")
  let ?df' = "df\<lparr>rows := map (\<lambda>i. rows df ! i) (take ?n locs)\<rparr>"
  have locs: "set locs = {0..<?N}" "length locs = ?N"
    using permutation_set [of "rk_interval c" ?N w] permutation_length [of "rk_interval c" ?N w]
    by (simp_all add: perm)
  have run: "sample c fr df w = (Inr ?df', w', [Sample fr])"
    by (simp add: sample_def perm Let_def)
  have sub: "set (rows ?df') \<subseteq> set (rows df)"
  proof
    fix r assume "r \<in> set (rows ?df')"
    then obtain i where "i \<in> set (take ?n locs)" "r = rows df ! i" by auto
    moreover from this have "i < ?N" using locs(1) by (auto dest: in_set_takeD)
    ultimately show "r \<in> set (rows df)" by simp
  qed
  have size: "int (length (rows ?df')) = py_round (fr * of_nat ?N)" if "0 \<le> fr" "fr \<le> 1"
  proof -
    have "fr * of_nat ?N \<le> of_int (int ?N)"
      using that by (simp add: mult_left_le_one_le)
    then have up: "py_round (fr * of_nat ?N) \<le> int ?N" by (rule py_round_le)
    have "of_int 0 \<le> fr * of_nat ?N" using that by simp
    then have lo: "0 \<le> py_round (fr * of_nat ?N)" by (rule py_round_ge)
    from up lo show ?thesis by (simp add: locs(2))
  qed
  show thesis
    by (rule that [OF run _ sub size]) simp_all
qed

subsection \<open>Runs that return\<close>

lemma and_then_returns:
  "and_then m f w = (Inr y, w2, t) \<longleftrightarrow>
     (\<exists>x w1 t1 t2. m w = (Inr x, w1, t1) \<and> f x w1 = (Inr y, w2, t2) \<and> t = t1 @ t2)"
  by (auto simp: and_then_def split: prod.splits sum.splits)

lemma extern_returns:
  "extern ev g w = (Inr x, w', t) \<longleftrightarrow> g w = (Inr x, w') \<and> t = [ev]"
  by (auto simp: extern_def split: prod.splits sum.splits)

lemma ret_returns: "ret x w = (Inr y, w', t) \<longleftrightarrow> y = x \<and> w' = w \<and> t = []"
  by (auto simp: ret_def)

lemma emit_returns: "emit ev w = (Inr u, w', t) \<longleftrightarrow> w' = w \<and> t = [ev]"
  by (auto simp: emit_def)

lemma raise_returns: "raise e w = (Inr y, w', t) \<longleftrightarrow> False"
  by (simp add: raise_def)

lemma lift_returns: "lift r w = (Inr y, w', t) \<longleftrightarrow> r = Inr y \<and> w' = w \<and> t = []"
  by (cases r) (auto simp: lift_def ret_def raise_def)

lemmas returns = and_then_returns extern_returns ret_returns emit_returns raise_returns lift_returns

lemma load_pandas_df_returns:
  assumes "load_pandas_df c p w = (Inr (train_df, test_df), w', t)"
  shows "t = [Download URL ''bbc-hindiv01.tar.gz'' p,
              TarOpen (path_join p ''bbc-hindiv01.tar.gz'') ''r:gz'',
              ExtractAll p,
              TarClose,
              ReadCsv (path_join p ''hindi-train.csv'') [CHR 0x09] ''utf-8'' None,
              ReadCsv (path_join p ''hindi-test.csv'') [CHR 0x09] ''utf-8'' None]"
    and "\<exists>w3 w4.
            read_csv c (path_join p ''hindi-train.csv'') [CHR 0x09] ''utf-8'' None w3 = (Inr train_df, w4) \<and>
            read_csv c (path_join p ''hindi-test.csv'') [CHR 0x09] ''utf-8'' None w4 = (Inr test_df, w')"
  using assms by (auto simp: load_pandas_df_def zipped_file Let_def returns)

subsection \<open>Exceptions are not caught\<close>












subsection \<open>Which exceptions a stage can raise\<close>

lemma raises_only_ret: "raises_only E (ret x)"
  by (simp add: raises_only_def ret_def)

lemma raises_only_raise: "e \<in> E \<Longrightarrow> raises_only E (raise e)"
  by (simp add: raises_only_def raise_def)

lemma raises_only_emit: "raises_only E (emit ev)"
  by (simp add: raises_only_def emit_def)

lemma raises_only_extern: "range External \<subseteq> E \<Longrightarrow> raises_only E (extern ev g)"
  by (auto simp: raises_only_def extern_def split: prod.splits sum.splits)

lemma raises_only_sample: "raises_only E (sample c fr df)"
  by (auto simp: raises_only_def sample_def Let_def split: prod.splits)

lemma raises_only_getitem: "KeyError k \<in> E \<Longrightarrow> raises_only E (lift (getitem df k))"
  by (simp add: getitem_def lift_simps raises_only_ret raises_only_raise)

lemma raises_only_transform: "UnseenLabels \<in> E \<Longrightarrow> raises_only E (lift (transform le y))"
  by (simp add: transform_def lift_simps raises_only_ret raises_only_raise)

lemma raises_only_if: "raises_only E m \<Longrightarrow> raises_only E m' \<Longrightarrow> raises_only E (if b then m else m')"
  by simp

lemma raises_only_and_then:
  assumes "raises_only E m" and "\<And>x. raises_only E (f x)"
  shows "raises_only E (and_then m f)"
  using assms unfolding raises_only_def and_then_def
  by (fastforce split: prod.splits sum.splits)

lemmas raises_only_intros =
  raises_only_and_then raises_only_if raises_only_ret raises_only_emit raises_only_extern
  raises_only_sample raises_only_getitem raises_only_transform

lemma load_pandas_df_raises: "raises_only (range External) (load_pandas_df c p)"
  unfolding load_pandas_df_def Let_def
  by (intro raises_only_intros) simp_all

lemma subsample_raises:
  "raises_only {e. \<forall>m. e \<noteq> ValueError m} (subsample c a le r1 r2 train_df test_df)"
  by (intro raises_only_intros) auto

subsection \<open>The encoding stage\<close>

lemma transformed_append: "transformed (s @ t) = transformed s @ transformed t"
  by (induction s rule: transformed.induct) simp_all

lemma and_then_extern:
  "and_then (extern ev g) f w =
     (case g w of
        (Inl x, w') \<Rightarrow> (Inl (External x), w', [ev, Raise (External x)])
      | (Inr v, w') \<Rightarrow> after [ev] (f v w'))"
  by (simp add: and_then_def extern_def after_def split: prod.splits sum.splits)




lemma encode_returns:
  assumes "encode c a le train_df test_df w = (Inr v, w', t)"
  shows "\<exists>y_train y_test. getitem train_df 0 = Inr y_train \<and> getitem test_df 0 = Inr y_test \<and>
           set y_train \<subseteq> set (classes le) \<and> set y_test \<subseteq> set (classes le) \<and>
           transformed t = [y_train, y_test] \<and> snd (snd v) = le"
  using assms by (auto simp: returns transform_Inr_iff [symmetric])

lemma subsample_run:
  obtains train_df' test_df' w3 where
    "subsample c a le r1 r2 train_df test_df w =
       after ((if r1 < 1 then [Sample r1] else []) @ (if r2 < 1 then [Sample r2] else []))
         (encode c a le train_df' test_df' w3)"
    "ncols train_df' = ncols train_df"
    "set (rows train_df') \<subseteq> set (rows train_df)"
    "if r1 < 1 then 0 \<le> r1 \<longrightarrow> int (length (rows train_df')) = py_round (r1 * of_nat (length (rows train_df)))
     else train_df' = train_df"
    "ncols test_df' = ncols test_df"
    "set (rows test_df') \<subseteq> set (rows test_df)"
    "if r2 < 1 then 0 \<le> r2 \<longrightarrow> int (length (rows test_df')) = py_round (r2 * of_nat (length (rows test_df)))
     else test_df' = test_df"
proof -
  obtain train_df' w2 where
    train: "(if r1 < 1 then sample c r1 train_df else ret train_df) w =
              (Inr train_df', w2, if r1 < 1 then [Sample r1] else [])"
      "ncols train_df' = ncols train_df"
      "set (rows train_df') \<subseteq> set (rows train_df)"
      "if r1 < 1 then 0 \<le> r1 \<longrightarrow> int (length (rows train_df')) = py_round (r1 * of_nat (length (rows train_df)))
       else train_df' = train_df"
  proof (cases "r1 < 1")
    case True
    then show ?thesis
      using that by (auto intro: sample_returns [of c r1 train_df w])
  next
    case False
    then show ?thesis
      using that [of train_df w] by (simp add: ret_def)
  qed
  obtain test_df' w3 where
    test: "(if r2 < 1 then sample c r2 test_df else ret test_df) w2 =
              (Inr test_df', w3, if r2 < 1 then [Sample r2] else [])"
      "ncols test_df' = ncols test_df"
      "set (rows test_df') \<subseteq> set (rows test_df)"
      "if r2 < 1 then 0 \<le> r2 \<longrightarrow> int (length (rows test_df')) = py_round (r2 * of_nat (length (rows test_df)))
       else test_df' = test_df"
  proof (cases "r2 < 1")
    case True
    then show ?thesis
      using that by (auto intro: sample_returns [of c r2 test_df w2])
  next
    case False
    then show ?thesis
      using that [of test_df w2] by (simp add: ret_def)
  qed
  have "subsample c a le r1 r2 train_df test_df w =
       after ((if r1 < 1 then [Sample r1] else []) @ (if r2 < 1 then [Sample r2] else []))
         (encode c a le train_df' test_df' w3)"
    by (simp only: and_then_after [of "if r1 < 1 then sample c r1 train_df else ret train_df" w, OF train(1)]
        and_then_after [of "if r2 < 1 then sample c r2 test_df else ret test_df" w2, OF test(1)] after_simps)
  then show thesis
    using train(2-) test(2-) by (rule that)
qed

subsection \<open>The ratio check\<close>

lemma load_dataset_outcomes:
  obtains
    (load_fails) e w1 t1 where
      "load_pandas_df c (local_path a) w = (Inl e, w1, t1)"
      "load_dataset c a w = (Inl e, w1, t1)"
      "e \<in> range External"
  | (no_label_column) train_df test_df w1 t1 where
      "load_pandas_df c (local_path a) w = (Inr (train_df, test_df), w1, t1)"
      "load_dataset c a w = (Inl (KeyError 0), w1, t1 @ [Raise (KeyError 0)])"
  | (fitted) train_df test_df w1 t1 y where
      "load_pandas_df c (local_path a) w = (Inr (train_df, test_df), w1, t1)"
      "getitem train_df 0 = Inr y"
proof (cases "load_pandas_df c (local_path a) w")
  case (fields r w1 t1)
  show thesis
  proof (cases r)
    case (Inl e)
    with fields have run: "load_pandas_df c (local_path a) w = (Inl e, w1, t1)" by simp
    from run have "e \<in> range External"
      using load_pandas_df_raises [of c "local_path a"] unfolding raises_only_def by blast
    with run load_dataset_load_fails [OF run] show thesis
      by (rule load_fails)
  next
    case (Inr frames)
    obtain train_df test_df where "frames = (train_df, test_df)" by (cases frames)
    with fields Inr have run: "load_pandas_df c (local_path a) w = (Inr (train_df, test_df), w1, t1)"
      by simp
    show thesis
    proof (cases "ncols train_df = 0")
      case True
      show thesis
        using run load_dataset_no_label_column [OF run True] by (rule no_label_column)
    next
      case False
      then have "getitem train_df 0 = Inr (map (\<lambda>r. r ! 0) (rows train_df))"
        by (simp add: getitem_def)
      with run show thesis by (rule fitted)
    qed
  qed
qed

lemma subsample_no_value_error:
  "subsample c a le r1 r2 train_df test_df w \<noteq> (Inl (ValueError m), w', t)"
  using subsample_raises [where c = c and a = a and le = le and ?r1.0 = r1 and ?r2.0 = r2
      and train_df = train_df and test_df = test_df]
  unfolding raises_only_def by blast

lemma after_eq: "after t0 run = (r, w', t) \<longleftrightarrow> (\<exists>s. run = (r, w', s) \<and> t = t0 @ s)"
  by (cases run) auto

text \<open>
  C10. When \<open>load_dataset\<close> raises the ValueError of its ratio check, \<open>load_pandas_df\<close> has
  run to its end: the download and the extraction are among its events, the world is the
  one they left behind (the call does not undo them), and the encoder has been fitted on
  the label column; the error record and the raise are the last two events, and one of
  the two ratios is negative.
\<close>

theorem negative_ratio_raises_after_download:
  assumes "load_dataset c a w = (Inl (ValueError m), w', t)"
  shows "\<exists>train_df test_df t1 y logs.
           load_pandas_df c (local_path a) w = (Inr (train_df, test_df), w', t1) \<and>
           Download URL ''bbc-hindiv01.tar.gz'' (local_path a) \<in> set t1 \<and>
           ExtractAll (local_path a) \<in> set t1 \<and>
           getitem train_df 0 = Inr y \<and>
           t = t1 @ Fit y # logs @ [Log ERROR m, Raise (ValueError m)] \<and>
           (train_sample_ratio a < 0 \<or> test_sample_ratio a < 0)"
proof (cases rule: load_dataset_outcomes [of c a w])
  case (load_fails e w1 t1)
  with assms show ?thesis by auto
next
  case (no_label_column train_df test_df w1 t1)
  with assms show ?thesis by simp
next
  case (fitted train_df test_df w1 t1 y)
  note ev = load_pandas_df_returns(1) [OF fitted(1)]
  consider "train_sample_ratio a < 0"
    | "0 \<le> train_sample_ratio a" "test_sample_ratio a < 0"
    | "0 \<le> train_sample_ratio a" "0 \<le> test_sample_ratio a"
    by linarith
  then show ?thesis
  proof cases
    case 1
    from assms load_dataset_train_negative [OF fitted 1]
    have "w' = w1" "t = t1 @ Fit y # [] @ [Log ERROR m, Raise (ValueError m)]"
      by auto
    with fitted 1 ev show ?thesis by (intro exI [of _ train_df] exI [of _ test_df] exI [of _ t1] exI [of _ y] exI [of _ "[]"]) simp
  next
    case 2
    let ?logs = "if 1 < train_sample_ratio a
        then [Log WARNING (Plain ''Setting the training sample ratio to 1.0'')] else []"
    from assms load_dataset_test_negative [OF fitted 2]
    have "w' = w1" "t = t1 @ Fit y # ?logs @ [Log ERROR m, Raise (ValueError m)]"
      by auto
    with fitted 2 ev show ?thesis by (intro exI [of _ train_df] exI [of _ test_df] exI [of _ t1] exI [of _ y] exI [of _ ?logs]) simp
  next
    case 3
    from assms [unfolded load_dataset_checked [OF fitted 3] after_eq]
    obtain s where
      "subsample c a (fit y) (min 1 (train_sample_ratio a)) (min 1 (test_sample_ratio a))
         train_df test_df w1 = (Inl (ValueError m), w', s)"
      by blast
    then have False
      by (simp only: subsample_no_value_error)
    then show ?thesis ..
  qed
qed

lemma demo_load:
  "load_pandas_df demo ''d'' demo_start =
     (Inr (demo_train, demo_test), demo_loaded,
      [Download URL ''bbc-hindiv01.tar.gz'' ''d'',
       TarOpen ''d/bbc-hindiv01.tar.gz'' ''r:gz'',
       ExtractAll ''d'',
       TarClose,
       ReadCsv ''d/hindi-train.csv'' [CHR 0x09] ''utf-8'' None,
       ReadCsv ''d/hindi-test.csv'' [CHR 0x09] ''utf-8'' None])"
  by (simp add: load_pandas_df_def zipped_file Let_def forward and_then_extern demo_def
      demo_start_def demo_loaded_def path_join_def ret_def)

lemma demo_labels: "getitem demo_train 0 = Inr [''india'', ''sport'', ''india'', ''news'']"
  by (simp add: getitem_def demo_train_def)

subsection \<open>What \<^verbatim>\<open>load_pandas_df\<close> does\<close>

text \<open>
  C6. A run of \<open>load_pandas_df\<close> that returns has made exactly six calls, the last two being
  the only reads: \<open>read_csv\<close> on \<open>hindi-train.csv\<close> and then on \<open>hindi-test.csv\<close> of the cache
  directory, each with a tab as separator, the encoding \<open>utf-8\<close> and \<open>header=None\<close>; the pair
  returned is the frame of the first read and the frame of the second, in this order.
\<close>

theorem load_pandas_df_reads_two_files:
  assumes "load_pandas_df c p w = (Inr (train_df, test_df), w', t)"
  shows "t = [Download URL ''bbc-hindiv01.tar.gz'' p,
              TarOpen (path_join p ''bbc-hindiv01.tar.gz'') ''r:gz'',
              ExtractAll p,
              TarClose,
              ReadCsv (path_join p ''hindi-train.csv'') [CHR 0x09] ''utf-8'' None,
              ReadCsv (path_join p ''hindi-test.csv'') [CHR 0x09] ''utf-8'' None] \<and>
         (\<exists>w3 w4.
            read_csv c (path_join p ''hindi-train.csv'') [CHR 0x09] ''utf-8'' None w3 = (Inr train_df, w4) \<and>
            read_csv c (path_join p ''hindi-test.csv'') [CHR 0x09] ''utf-8'' None w4 = (Inr test_df, w'))"
  using load_pandas_df_returns [OF assms] by simp

theorem load_pandas_df_reads_two_files_witness:
  "load_pandas_df demo ''d'' demo_start =
     (Inr (demo_train, demo_test), demo_loaded,
      [Download URL ''bbc-hindiv01.tar.gz'' ''d'',
       TarOpen ''d/bbc-hindiv01.tar.gz'' ''r:gz'',
       ExtractAll ''d'',
       TarClose,
       ReadCsv ''d/hindi-train.csv'' [CHR 0x09] ''utf-8'' None,
       ReadCsv ''d/hindi-test.csv'' [CHR 0x09] ''utf-8'' None]) \<and>
   (\<exists>w3 w4.
      read_csv demo ''d/hindi-train.csv'' [CHR 0x09] ''utf-8'' None w3 = (Inr demo_train, w4) \<and>
      read_csv demo ''d/hindi-test.csv'' [CHR 0x09] ''utf-8'' None w4 = (Inr demo_test, demo_loaded))"
  using load_pandas_df_reads_two_files [OF demo_load] demo_load
  by (simp add: path_join_def)

subsection \<open>Ratios outside the unit interval\<close>

text \<open>
  C1 as stated fails above the interval: with a training ratio of \<open>2\<close> and a testing ratio
  of \<open>3/2\<close>, both outside \<open>[0, 1]\<close>, \<open>load_dataset\<close> returns its three results.
\<close>

theorem ratio_above_one_is_not_rejected:
  "\<not> (0 \<le> (2 :: rat) \<and> (2 :: rat) \<le> 1) \<and> \<not> (0 \<le> (3 / 2 :: rat) \<and> (3 / 2 :: rat) \<le> 1) \<and>
   fst (load_dataset demo (demo_args\<lparr>train_sample_ratio := 2, test_sample_ratio := 3 / 2\<rparr>) demo_start) =
     Inr ([(''a'', 0), (''b'', 2), (''c'', 0), (''d'', 1)], [(''e'', 2), (''f'', 1)],
          \<lparr>classes = [''india'', ''news'', ''sport'']\<rparr>)"
proof -
  have "local_path (demo_args\<lparr>train_sample_ratio := 2, test_sample_ratio := 3 / 2\<rparr>) = ''d''"
    by (simp add: demo_args_def)
  with demo_load have load:
    "load_pandas_df demo (local_path (demo_args\<lparr>train_sample_ratio := 2, test_sample_ratio := 3 / 2\<rparr>))
       demo_start = (Inr (demo_train, demo_test), demo_loaded,
      [Download URL ''bbc-hindiv01.tar.gz'' ''d'',
       TarOpen ''d/bbc-hindiv01.tar.gz'' ''r:gz'',
       ExtractAll ''d'',
       TarClose,
       ReadCsv ''d/hindi-train.csv'' [CHR 0x09] ''utf-8'' None,
       ReadCsv ''d/hindi-test.csv'' [CHR 0x09] ''utf-8'' None])"
    by simp
  have "0 \<le> train_sample_ratio (demo_args\<lparr>train_sample_ratio := 2, test_sample_ratio := 3 / 2\<rparr>)"
    and "0 \<le> test_sample_ratio (demo_args\<lparr>train_sample_ratio := 2, test_sample_ratio := 3 / 2\<rparr>)"
    by simp_all
  note run = load_dataset_checked [OF load demo_labels this]
  show ?thesis
    unfolding run
    by (simp add: demo_args_def forward and_then_extern
        getitem_def demo_train_def demo_test_def demo_def fit_def transform_def ret_def)
qed

text \<open>
  C1, amended. Once the frames are loaded and the training frame has a label column, a
  negative training ratio makes \<open>load_dataset\<close> log an error record and raise a ValueError
  with the same message; so does a negative testing ratio when the training ratio is not
  negative. Nothing is sampled, encoded or preprocessed in either case.
\<close>

theorem negative_ratio_raises:
  assumes "load_pandas_df c (local_path a) w = (Inr (train_df, test_df), w1, t1)"
    and "getitem train_df 0 = Inr y"
  shows
    "(train_sample_ratio a < 0 \<longrightarrow>
        load_dataset c a w =
          (Inl (ValueError (Formatted ''Invalid training sample ration: {}'' (train_sample_ratio a))), w1,
           t1 @ [Fit y,
                 Log ERROR (Formatted ''Invalid training sample ration: {}'' (train_sample_ratio a)),
                 Raise (ValueError (Formatted ''Invalid training sample ration: {}'' (train_sample_ratio a)))])) \<and>
     (0 \<le> train_sample_ratio a \<and> test_sample_ratio a < 0 \<longrightarrow>
        load_dataset c a w =
          (Inl (ValueError (Formatted ''Invalid testing sample ration: {}'' (test_sample_ratio a))), w1,
           t1 @ Fit y #
             (if 1 < train_sample_ratio a
              then [Log WARNING (Plain ''Setting the training sample ratio to 1.0'')] else []) @
             [Log ERROR (Formatted ''Invalid testing sample ration: {}'' (test_sample_ratio a)),
              Raise (ValueError (Formatted ''Invalid testing sample ration: {}'' (test_sample_ratio a)))]))"
  using load_dataset_train_negative [OF assms] load_dataset_test_negative [OF assms]
  by blast


lemma demo_load_args:
  "local_path a = ''d'' \<Longrightarrow>
   load_pandas_df demo (local_path a) demo_start =
     (Inr (demo_train, demo_test), demo_loaded,
      [Download URL ''bbc-hindiv01.tar.gz'' ''d'',
       TarOpen ''d/bbc-hindiv01.tar.gz'' ''r:gz'',
       ExtractAll ''d'',
       TarClose,
       ReadCsv ''d/hindi-train.csv'' [CHR 0x09] ''utf-8'' None,
       ReadCsv ''d/hindi-test.csv'' [CHR 0x09] ''utf-8'' None])"
  using demo_load by simp

theorem negative_ratio_raises_witness:
  "load_dataset demo (demo_args\<lparr>train_sample_ratio := - 1 / 2\<rparr>) demo_start =
     (Inl (ValueError (Formatted ''Invalid training sample ration: {}'' (- 1 / 2))), demo_loaded,
      [Download URL ''bbc-hindiv01.tar.gz'' ''d'',
       TarOpen ''d/bbc-hindiv01.tar.gz'' ''r:gz'',
       ExtractAll ''d'',
       TarClose,
       ReadCsv ''d/hindi-train.csv'' [CHR 0x09] ''utf-8'' None,
       ReadCsv ''d/hindi-test.csv'' [CHR 0x09] ''utf-8'' None,
       Fit [''india'', ''sport'', ''india'', ''news''],
       Log ERROR (Formatted ''Invalid training sample ration: {}'' (- 1 / 2)),
       Raise (ValueError (Formatted ''Invalid training sample ration: {}'' (- 1 / 2)))]) \<and>
   load_dataset demo (demo_args\<lparr>train_sample_ratio := 2, test_sample_ratio := - 1\<rparr>) demo_start =
     (Inl (ValueError (Formatted ''Invalid testing sample ration: {}'' (- 1))), demo_loaded,
      [Download URL ''bbc-hindiv01.tar.gz'' ''d'',
       TarOpen ''d/bbc-hindiv01.tar.gz'' ''r:gz'',
       ExtractAll ''d'',
       TarClose,
       ReadCsv ''d/hindi-train.csv'' [CHR 0x09] ''utf-8'' None,
       ReadCsv ''d/hindi-test.csv'' [CHR 0x09] ''utf-8'' None,
       Fit [''india'', ''sport'', ''india'', ''news''],
       Log WARNING (Plain ''Setting the training sample ratio to 1.0''),
       Log ERROR (Formatted ''Invalid testing sample ration: {}'' (- 1)),
       Raise (ValueError (Formatted ''Invalid testing sample ration: {}'' (- 1)))])"
proof -
  have "local_path (demo_args\<lparr>train_sample_ratio := - 1 / 2\<rparr>) = ''d''"
    and "local_path (demo_args\<lparr>train_sample_ratio := 2, test_sample_ratio := - 1\<rparr>) = ''d''"
    by (simp_all add: demo_args_def)
  note loads = this [THEN demo_load_args]
  show ?thesis
    using negative_ratio_raises [OF loads(1) demo_labels]
      negative_ratio_raises [OF loads(2) demo_labels]
    by simp
qed

theorem negative_ratio_raises_after_download_witness:
  "load_dataset demo (demo_args\<lparr>test_sample_ratio := - 1\<rparr>) demo_start =
     (Inl (ValueError (Formatted ''Invalid testing sample ration: {}'' (- 1))), demo_loaded,
      [Download URL ''bbc-hindiv01.tar.gz'' ''d'',
       TarOpen ''d/bbc-hindiv01.tar.gz'' ''r:gz'',
       ExtractAll ''d'',
       TarClose,
       ReadCsv ''d/hindi-train.csv'' [CHR 0x09] ''utf-8'' None,
       ReadCsv ''d/hindi-test.csv'' [CHR 0x09] ''utf-8'' None,
       Fit [''india'', ''sport'', ''india'', ''news''],
       Log ERROR (Formatted ''Invalid testing sample ration: {}'' (- 1)),
       Raise (ValueError (Formatted ''Invalid testing sample ration: {}'' (- 1)))]) \<and>
   files demo_start = [] \<and>
   files demo_loaded = [''d/hindi-test.csv'', ''d/hindi-train.csv'', ''d/bbc-hindiv01.tar.gz''] \<and>
   (\<exists>train_df test_df t1 y logs.
      load_pandas_df demo ''d'' demo_start = (Inr (train_df, test_df), demo_loaded, t1) \<and>
      Download URL ''bbc-hindiv01.tar.gz'' ''d'' \<in> set t1 \<and>
      ExtractAll ''d'' \<in> set t1 \<and>
      getitem train_df 0 = Inr y \<and>
      t1 @ [Fit [''india'', ''sport'', ''india'', ''news''],
            Log ERROR (Formatted ''Invalid testing sample ration: {}'' (- 1)),
            Raise (ValueError (Formatted ''Invalid testing sample ration: {}'' (- 1)))] =
        t1 @ Fit y # logs @
          [Log ERROR (Formatted ''Invalid testing sample ration: {}'' (- 1)),
           Raise (ValueError (Formatted ''Invalid testing sample ration: {}'' (- 1)))])"
proof -
  let ?a = "demo_args\<lparr>test_sample_ratio := - 1\<rparr>"
  have path: "local_path ?a = ''d''"
    by (simp add: demo_args_def)
  have ratios: "0 \<le> train_sample_ratio ?a" "test_sample_ratio ?a < 0"
    by (simp_all add: demo_args_def)
  have run: "load_dataset demo ?a demo_start =
     (Inl (ValueError (Formatted ''Invalid testing sample ration: {}'' (- 1))), demo_loaded,
      [Download URL ''bbc-hindiv01.tar.gz'' ''d'',
       TarOpen ''d/bbc-hindiv01.tar.gz'' ''r:gz'',
       ExtractAll ''d'',
       TarClose,
       ReadCsv ''d/hindi-train.csv'' [CHR 0x09] ''utf-8'' None,
       ReadCsv ''d/hindi-test.csv'' [CHR 0x09] ''utf-8'' None,
       Fit [''india'', ''sport'', ''india'', ''news''],
       Log ERROR (Formatted ''Invalid testing sample ration: {}'' (- 1)),
       Raise (ValueError (Formatted ''Invalid testing sample ration: {}'' (- 1)))])"
    unfolding load_dataset_test_negative [OF demo_load_args [OF path] demo_labels ratios]
    by (simp add: demo_args_def)
  from negative_ratio_raises_after_download [OF run] demo_load
  show ?thesis
    unfolding run by (auto simp: path demo_start_def demo_loaded_def)
qed

subsection \<open>No exception is handled\<close>



lemma transformed_load: 
  assumes "load_pandas_df c p w = (Inr frames, w1, t1)"
  shows "transformed t1 = []" and "Sample r \<notin> set t1"
proof -
  obtain train_df test_df where "frames = (train_df, test_df)" by (cases frames)
  with assms have "load_pandas_df c p w = (Inr (train_df, test_df), w1, t1)" by simp
  from load_pandas_df_returns(1) [OF this] show "transformed t1 = []" and "Sample r \<notin> set t1"
    by simp_all
qed

lemma load_dataset_encodes:
  assumes "load_pandas_df c (local_path a) w = (Inr (train_df, test_df), w1, t1)"
    and "getitem train_df 0 = Inr y"
    and "0 \<le> train_sample_ratio a"
    and "0 \<le> test_sample_ratio a"
  obtains train_df' test_df' w3 pre where
    "load_dataset c a w = after (t1 @ Fit y # pre) (encode c a (fit y) train_df' test_df' w3)"
    "transformed pre = []"
    "ncols train_df' = ncols train_df"
    "set (rows train_df') \<subseteq> set (rows train_df)"
    "if train_sample_ratio a < 1
     then int (length (rows train_df')) =
            py_round (train_sample_ratio a * of_nat (length (rows train_df)))
     else train_df' = train_df"
    "ncols test_df' = ncols test_df"
    "set (rows test_df') \<subseteq> set (rows test_df)"
    "if test_sample_ratio a < 1
     then int (length (rows test_df')) =
            py_round (test_sample_ratio a * of_nat (length (rows test_df)))
     else test_df' = test_df"
proof -
  let ?r1 = "min 1 (train_sample_ratio a)" and ?r2 = "min 1 (test_sample_ratio a)"
  let ?warn = "(if 1 < train_sample_ratio a
        then [Log WARNING (Plain ''Setting the training sample ratio to 1.0'')] else []) @
       (if 1 < test_sample_ratio a
        then [Log WARNING (Plain ''Setting the testing sample ratio to 1.0'')] else [])"
  let ?samples = "(if ?r1 < 1 then [Sample ?r1] else []) @ (if ?r2 < 1 then [Sample ?r2] else [])"
  obtain train_df' test_df' w3 where
    sub: "subsample c a (fit y) ?r1 ?r2 train_df test_df w1 =
       after ?samples (encode c a (fit y) train_df' test_df' w3)"
    and train: "ncols train_df' = ncols train_df" "set (rows train_df') \<subseteq> set (rows train_df)"
      "if ?r1 < 1 then 0 \<le> ?r1 \<longrightarrow> int (length (rows train_df')) = py_round (?r1 * of_nat (length (rows train_df)))
       else train_df' = train_df"
    and test: "ncols test_df' = ncols test_df" "set (rows test_df') \<subseteq> set (rows test_df)"
      "if ?r2 < 1 then 0 \<le> ?r2 \<longrightarrow> int (length (rows test_df')) = py_round (?r2 * of_nat (length (rows test_df)))
       else test_df' = test_df"
    by (rule subsample_run [where c = c and a = a and le = "fit y" and ?r1.0 = ?r1 and ?r2.0 = ?r2
          and train_df = train_df and test_df = test_df and w = w1])
  have run: "load_dataset c a w =
      after (t1 @ Fit y # ?warn @ ?samples) (encode c a (fit y) train_df' test_df' w3)"
    unfolding load_dataset_checked [OF assms] sub by simp
  have quiet: "transformed (?warn @ ?samples) = []"
    by (simp add: transformed_append)
  have size1: "if train_sample_ratio a < 1
     then int (length (rows train_df')) =
            py_round (train_sample_ratio a * of_nat (length (rows train_df)))
     else train_df' = train_df"
    using train(3) assms(3) by (auto simp: min_def split: if_splits)
  have size2: "if test_sample_ratio a < 1
     then int (length (rows test_df')) =
            py_round (test_sample_ratio a * of_nat (length (rows test_df)))
     else test_df' = test_df"
    using test(3) assms(4) by (auto simp: min_def split: if_splits)
  show thesis
    using run quiet train(1,2) size1 test(1,2) size2 by (rule that)
qed


lemma load_dataset_returns:
  assumes "load_dataset c a w = (Inr v, w', t)"
  obtains train_df test_df w1 t1 y train_df' test_df' w3 pre s where
    "load_pandas_df c (local_path a) w = (Inr (train_df, test_df), w1, t1)"
    "getitem train_df 0 = Inr y"
    "0 \<le> train_sample_ratio a" "0 \<le> test_sample_ratio a"
    "encode c a (fit y) train_df' test_df' w3 = (Inr v, w', s)"
    "t = t1 @ Fit y # pre @ s"
    "transformed pre = []"
    "ncols train_df' = ncols train_df"
    "set (rows train_df') \<subseteq> set (rows train_df)"
proof (cases rule: load_dataset_outcomes [of c a w])
  case (load_fails e w1 t1)
  with assms show thesis by simp
next
  case (no_label_column train_df test_df w1 t1)
  with assms show thesis by simp
next
  case (fitted train_df test_df w1 t1 y)
  have train: "0 \<le> train_sample_ratio a"
  proof (rule ccontr)
    assume "\<not> 0 \<le> train_sample_ratio a"
    then have "train_sample_ratio a < 0" by simp
    from load_dataset_train_negative [OF fitted this] assms show False by simp
  qed
  have test: "0 \<le> test_sample_ratio a"
  proof (rule ccontr)
    assume "\<not> 0 \<le> test_sample_ratio a"
    then have "test_sample_ratio a < 0" by simp
    from load_dataset_test_negative [OF fitted train this] assms show False by simp
  qed
  from fitted train test obtain train_df' test_df' w3 pre where
    run: "load_dataset c a w = after (t1 @ Fit y # pre) (encode c a (fit y) train_df' test_df' w3)"
    and pre: "transformed pre = []"
    and sub: "ncols train_df' = ncols train_df" "set (rows train_df') \<subseteq> set (rows train_df)"
    by (rule load_dataset_encodes)
  from assms [unfolded run after_eq] obtain s where
    enc: "encode c a (fit y) train_df' test_df' w3 = (Inr v, w', s)" and t: "t = (t1 @ Fit y # pre) @ s"
    by blast
  from t have "t = t1 @ Fit y # pre @ s" by simp
  with fitted train test enc show thesis
    using pre sub by (rule that)
qed

subsection \<open>The encoder and the sampled frames\<close>

text \<open>
  C9. The encoder that \<open>load_dataset\<close> returns is the one fitted on the whole label column
  of the training frame that \<open>load_pandas_df\<close> returned: the fit is the first event after the
  two reads, before anything is sampled, and the classes are the values of that column.
  A call with any other pair of sampling ratios that returns, from the same world, returns
  the same encoder.
\<close>

theorem encoder_fitted_before_sampling:
  assumes "load_dataset c a w = (Inr (train_dataset, test_dataset, le), w', t)"
  shows "(\<exists>train_df test_df w1 t1 y rest.
            load_pandas_df c (local_path a) w = (Inr (train_df, test_df), w1, t1) \<and>
            getitem train_df 0 = Inr y \<and>
            le = fit y \<and> set (classes le) = set y \<and>
            t = t1 @ Fit y # rest \<and> (\<forall>r. Sample r \<notin> set t1)) \<and>
         (\<forall>r1 r2 d1 d2 le' w'' t''.
            load_dataset c (a\<lparr>train_sample_ratio := r1, test_sample_ratio := r2\<rparr>) w =
              (Inr (d1, d2, le'), w'', t'') \<longrightarrow> le' = le)"
proof -
  have fitted: "\<exists>train_df test_df w1 t1 y rest.
            load_pandas_df c (local_path b) w = (Inr (train_df, test_df), w1, t1) \<and>
            getitem train_df 0 = Inr y \<and>
            e = fit y \<and> set (classes e) = set y \<and>
            s = t1 @ Fit y # rest \<and> (\<forall>r. Sample r \<notin> set t1)"
    if "load_dataset c b w = (Inr (d1, d2, e), u, s)" for b d1 d2 e u s
  proof -
    from that obtain train_df test_df w1 t1 y train_df' test_df' w3 pre s' where
      load: "load_pandas_df c (local_path b) w = (Inr (train_df, test_df), w1, t1)"
      and y: "getitem train_df 0 = Inr y"
      and enc: "encode c b (fit y) train_df' test_df' w3 = (Inr (d1, d2, e), u, s')"
      and s: "s = t1 @ Fit y # pre @ s'"
      by (rule load_dataset_returns)
    from encode_returns [OF enc] have "e = fit y" by auto
    with load y s transformed_load(2) [OF load] show ?thesis
      by (auto simp: set_classes_fit)
  qed
  from fitted [OF assms] obtain train_df test_df w1 t1 y where
    load: "load_pandas_df c (local_path a) w = (Inr (train_df, test_df), w1, t1)"
    and y: "getitem train_df 0 = Inr y" and le: "le = fit y"
    by blast
  have "le' = le"
    if "load_dataset c (a\<lparr>train_sample_ratio := r1, test_sample_ratio := r2\<rparr>) w =
              (Inr (d1, d2, le'), w'', t'')" for r1 r2 d1 d2 le' w'' t''
    using fitted [OF that] load y le by auto
  with fitted [OF assms] show ?thesis
    by blast
qed



lemma demo_load_events:
  "local_path a = ''d'' \<Longrightarrow>
   load_pandas_df demo (local_path a) demo_start = (Inr (demo_train, demo_test), demo_loaded, demo_events)"
  by (simp add: demo_load demo_events_def)

lemmas demo_eval =
  forward and_then_extern getitem_def demo_train_def demo_test_def demo_test_unseen_def demo_def
  demo_unseen_def fit_def transform_def ret_def raise_def demo_args_def

lemma demo_run:
  "load_dataset demo demo_args demo_start =
     (Inr ([(''a'', 0), (''b'', 2), (''c'', 0), (''d'', 1)], [(''e'', 2), (''f'', 1)],
           \<lparr>classes = [''india'', ''news'', ''sport'']\<rparr>),
      demo_loaded,
      demo_events @
      [Fit [''india'', ''sport'', ''india'', ''news''],
       Transform [''india'', ''sport'', ''india'', ''news''],
       Transform [''sport'', ''news''],
       NewProcessor ''bert-base-uncased'' True ''cache'',
       Preprocess [''a'', ''b'', ''c'', ''d''] [0, 2, 0, 1] 512,
       Preprocess [''e'', ''f''] [2, 1] 512])"
proof -
  have path: "local_path demo_args = ''d''"
    and ratios: "0 \<le> train_sample_ratio demo_args" "0 \<le> test_sample_ratio demo_args"
    by (simp_all add: demo_args_def)
  show ?thesis
    unfolding load_dataset_checked [OF demo_load_events [OF path] demo_labels ratios]
    by (simp add: demo_eval)
qed




subsection \<open>Ratios above one\<close>





lemma demo_run_half:
  "load_dataset demo (demo_args\<lparr>train_sample_ratio := 1 / 2, test_sample_ratio := 1\<rparr>) demo_start =
     (Inr ([(''c'', 0), (''d'', 1)], [(''e'', 2), (''f'', 1)],
           \<lparr>classes = [''india'', ''news'', ''sport'']\<rparr>),
      demo_loaded\<lparr>drawn := 3\<rparr>,
      demo_events @
      [Fit [''india'', ''sport'', ''india'', ''news''],
       Sample (1 / 2),
       Transform [''india'', ''news''],
       Transform [''sport'', ''news''],
       NewProcessor ''bert-base-uncased'' True ''cache'',
       Preprocess [''c'', ''d''] [0, 1] 512,
       Preprocess [''e'', ''f''] [2, 1] 512])"
  by code_simp







theorem encoder_fitted_before_sampling_witness:
  "load_dataset demo demo_args demo_start =
     (Inr ([(''a'', 0), (''b'', 2), (''c'', 0), (''d'', 1)], [(''e'', 2), (''f'', 1)],
           \<lparr>classes = [''india'', ''news'', ''sport'']\<rparr>),
      demo_loaded,
      demo_events @
      [Fit [''india'', ''sport'', ''india'', ''news''],
       Transform [''india'', ''sport'', ''india'', ''news''],
       Transform [''sport'', ''news''],
       NewProcessor ''bert-base-uncased'' True ''cache'',
       Preprocess [''a'', ''b'', ''c'', ''d''] [0, 2, 0, 1] 512,
       Preprocess [''e'', ''f''] [2, 1] 512]) \<and>
   fst (load_dataset demo (demo_args\<lparr>train_sample_ratio := 1 / 2, test_sample_ratio := 1\<rparr>) demo_start) =
     Inr ([(''c'', 0), (''d'', 1)], [(''e'', 2), (''f'', 1)],
          \<lparr>classes = [''india'', ''news'', ''sport'']\<rparr>) \<and>
   (\<exists>train_df test_df w1 t1 y rest.
      load_pandas_df demo (local_path demo_args) demo_start = (Inr (train_df, test_df), w1, t1) \<and>
      getitem train_df 0 = Inr y \<and>
      \<lparr>classes = [''india'', ''news'', ''sport'']\<rparr> = fit y)"
proof -
  note fitted = encoder_fitted_before_sampling [OF demo_run]
  from fitted [THEN conjunct2, THEN spec, THEN spec, THEN spec, THEN spec, THEN spec, THEN spec,
      THEN spec, THEN mp, OF demo_run_half]
  have same: "\<lparr>classes = [''india'', ''news'', ''sport'']\<rparr> = \<lparr>classes = [''india'', ''news'', ''sport'']\<rparr>" .
  from fitted [THEN conjunct1] have "\<exists>train_df test_df w1 t1 y rest.
      load_pandas_df demo (local_path demo_args) demo_start = (Inr (train_df, test_df), w1, t1) \<and>
      getitem train_df 0 = Inr y \<and>
      \<lparr>classes = [''india'', ''news'', ''sport'']\<rparr> = fit y"
    by (elim exE conjE) (intro exI conjI)
  with demo_run demo_run_half same show ?thesis
    by simp
qed

end
